theory Spec2Isabelle
  imports Main "HOL-Library.Sublist" "HOL-Library.Monad_Syntax"
    "HOL-Library.Char_ord" "HOL-Library.List_Lexorder"
begin

section \<open>Python values\<close>

text \<open>
  The values that travel through \<open>plugin.py\<close> are what \<open>json.loads\<close> produces and what
  the host puts into \<open>action_data\<close>: \<open>None\<close>, booleans, integers, strings, lists and
  dictionaries with string keys. A Python \<open>str\<close> is modelled by its UTF-8 bytes:
  concatenation, equality and substring containment agree on code points and on
  their UTF-8 encoding. JSON numbers are integers here; floats are outside the model.
  A dictionary is an association list in insertion order, with distinct keys.
  A byte sequence that is not UTF-8 encodes no Python string.
\<close>

datatype pyval =
    PNone
  | PBool bool
  | PInt int
  | PStr string
  | PList "pyval list"
  | PDict "(string \<times> pyval) list"

text \<open>Truth value testing (\<open>if x:\<close>, \<open>not x\<close>, \<open>x and y\<close>).\<close>

fun py_truthy :: "pyval \<Rightarrow> bool" where
  "py_truthy PNone = False"
| "py_truthy (PBool b) = b"
| "py_truthy (PInt n) = (n \<noteq> 0)"
| "py_truthy (PStr s) = (s \<noteq> [])"
| "py_truthy (PList xs) = (xs \<noteq> [])"
| "py_truthy (PDict kvs) = (kvs \<noteq> [])"

text \<open>
  Python's \<open>==\<close> on these values: \<open>True == 1\<close> and \<open>False == 0\<close>, lists are
  compared element by element, dictionaries regardless of insertion order. \<open>canon\<close>
  maps a value to a representative of its \<open>==\<close> class.
\<close>

primrec canon :: "pyval \<Rightarrow> pyval" where
  "canon PNone = PNone"
| "canon (PBool b) = PInt (if b then 1 else 0)"
| "canon (PInt n) = PInt n"
| "canon (PStr s) = PStr s"
| "canon (PList xs) = PList (map canon xs)"
| "canon (PDict kvs) = PDict (sort_key fst (map (map_prod id canon) kvs))"

definition py_eq :: "pyval \<Rightarrow> pyval \<Rightarrow> bool" where
  "py_eq a b = (canon a = canon b)"

text \<open>
  Operations that raise on the wrong type return \<open>None\<close> for the raise; every use in
  \<open>plugin.py\<close> sits inside a \<open>try\<close> whose handler catches \<open>Exception\<close>.

  \<open>d.get(k, default)\<close>: only a dictionary has \<open>get\<close> (\<open>AttributeError\<close> otherwise).
\<close>

fun py_get :: "pyval \<Rightarrow> string \<Rightarrow> pyval \<Rightarrow> pyval option" where
  "py_get (PDict kvs) k dflt = Some (case map_of kvs k of None \<Rightarrow> dflt | Some v \<Rightarrow> v)"
| "py_get _ k dflt = None"

text \<open>
  \<open>d[k]\<close> with a string key: \<open>KeyError\<close> when the key is missing, \<open>TypeError\<close> when
  \<open>d\<close> is not a dictionary (a list or a string cannot be indexed by a string).
\<close>

fun py_subscript :: "pyval \<Rightarrow> string \<Rightarrow> pyval option" where
  "py_subscript (PDict kvs) k = map_of kvs k"
| "py_subscript _ k = None"

text \<open>
  \<open>a in b\<close>: substring containment when \<open>b\<close> is a string (\<open>TypeError\<close> unless \<open>a\<close> is a
  string too), membership up to \<open>==\<close> when \<open>b\<close> is a list, key membership when \<open>b\<close> is
  a dictionary (\<open>TypeError\<close> for an unhashable \<open>a\<close>), \<open>TypeError\<close> otherwise.
\<close>

fun py_in :: "pyval \<Rightarrow> pyval \<Rightarrow> bool option" where
  "py_in (PStr k) (PStr s) = Some (sublist k s)"
| "py_in a (PStr s) = None"
| "py_in a (PList xs) = Some (list_ex (py_eq a) xs)"
| "py_in (PStr k) (PDict kvs) = Some (k \<in> set (map fst kvs))"
| "py_in (PList xs) (PDict kvs) = None"
| "py_in (PDict xs) (PDict kvs) = None"
| "py_in a (PDict kvs) = Some False"
| "py_in a b = None"

text \<open>The items of a list; the loops of \<open>plugin.py\<close> run only over values already
  tested with \<open>isinstance(_, list)\<close>.\<close>

fun py_list :: "pyval \<Rightarrow> pyval list option" where
  "py_list (PList xs) = Some xs"
| "py_list _ = None"

fun isinstance_list :: "pyval \<Rightarrow> bool" where
  "isinstance_list (PList xs) = True"
| "isinstance_list _ = False"

subsection \<open>\<open>str\<close> and \<open>repr\<close>\<close>

fun digits :: "nat \<Rightarrow> string" where
  "digits n = (if n < 10 then [char_of (48 + n)]
               else digits (n div 10) @ [char_of (48 + n mod 10)])"

text \<open>The equation of \<open>digits\<close> is unfolded on demand only.\<close>

declare digits.simps [simp del]

definition str_int :: "int \<Rightarrow> string" where
  "str_int i = (if i < 0 then CHR ''-'' # digits (nat (- i)) else digits (nat i))"

definition hex_digit :: "nat \<Rightarrow> char" where
  "hex_digit d = (if d < 10 then char_of (48 + d) else char_of (87 + d))"

fun hex_fixed :: "nat \<Rightarrow> nat \<Rightarrow> string" where
  "hex_fixed 0 n = []"
| "hex_fixed (Suc k) n = hex_fixed k (n div 16) @ [hex_digit (n mod 16)]"

text \<open>
  The characters of a string: the number of bytes of the UTF-8 sequence that a byte
  opens, and the code point that a sequence encodes.
\<close>

definition utf8_len :: "char \<Rightarrow> nat" where
  "utf8_len c =
     (if (of_char c :: nat) < 0xC0 then 1
      else if (of_char c :: nat) < 0xE0 then 2
      else if (of_char c :: nat) < 0xF0 then 3
      else 4)"

definition lead_bits :: "char \<Rightarrow> nat" where
  "lead_bits c =
     (if (of_char c :: nat) < 0x80 then of_char c
      else if (of_char c :: nat) < 0xE0 then of_char c mod 32
      else if (of_char c :: nat) < 0xF0 then of_char c mod 16
      else of_char c mod 8)"

fun code_point :: "string \<Rightarrow> nat" where
  "code_point [] = 0"
| "code_point (c # cs) = foldl (\<lambda>n d. n * 64 + of_char d mod 64) (lead_bits c) cs"

text \<open>
  \<open>repr\<close> of a string: single quotes unless the string holds a single quote and no
  double quote. An ASCII character: the chosen quote and the backslash are escaped,
  tab, newline and carriage return get their letter, other control characters and
  DEL become \<open>\xNN\<close>, the rest is copied.
\<close>

definition repr_char :: "char \<Rightarrow> char \<Rightarrow> string" where
  "repr_char q c =
     (if c = q \<or> c = CHR 0x5C then [CHR 0x5C, c]
      else if c = CHR 0x09 then [CHR 0x5C, CHR ''t'']
      else if c = CHR 0x0A then [CHR 0x5C, CHR ''n'']
      else if c = CHR 0x0D then [CHR 0x5C, CHR ''r'']
      else if (of_char c :: nat) < 32 \<or> c = CHR 0x7F
        then [CHR 0x5C, CHR ''x'', hex_digit (of_char c div 16), hex_digit (of_char c mod 16)]
      else [c])"

text \<open>
  A character beyond ASCII is copied when it is printable and escaped otherwise, as
  \<open>\xNN\<close>, \<open>\uNNNN\<close> or \<open>\UNNNNNNNN\<close> by the size of its code point. Which code points
  are printable is a table of the Unicode database (\<open>str.isprintable\<close>); it is the
  parameter \<open>pr\<close> of \<open>repr\<close> and \<open>str\<close>, and is consulted for code points from 0x80 on
  only.
\<close>

definition repr_wide :: "(nat \<Rightarrow> bool) \<Rightarrow> string \<Rightarrow> string" where
  "repr_wide pr bs =
     (let cp = code_point bs
      in if pr cp then bs
         else if cp \<le> 0xFF then [CHR 0x5C, CHR ''x''] @ hex_fixed 2 cp
         else if cp \<le> 0xFFFF then [CHR 0x5C, CHR ''u''] @ hex_fixed 4 cp
         else [CHR 0x5C, CHR ''U''] @ hex_fixed 8 cp)"

fun repr_chars :: "(nat \<Rightarrow> bool) \<Rightarrow> char \<Rightarrow> string \<Rightarrow> string" where
  "repr_chars pr q [] = []"
| "repr_chars pr q (c # cs) =
     (if (of_char c :: nat) < 0x80 then repr_char q c
      else repr_wide pr (c # take (utf8_len c - 1) cs)) @
     repr_chars pr q (drop (utf8_len c - 1) cs)"

definition repr_str :: "(nat \<Rightarrow> bool) \<Rightarrow> string \<Rightarrow> string" where
  "repr_str pr s =
     (let q = (if CHR 0x27 \<in> set s \<and> CHR 0x22 \<notin> set s then CHR 0x22 else CHR 0x27)
      in q # repr_chars pr q s @ [q])"

fun join_sep :: "string \<Rightarrow> string list \<Rightarrow> string" where
  "join_sep sep [] = []"
| "join_sep sep [x] = x"
| "join_sep sep (x # y # ys) = x @ sep @ join_sep sep (y # ys)"

primrec py_repr :: "(nat \<Rightarrow> bool) \<Rightarrow> pyval \<Rightarrow> string" where
  "py_repr pr PNone = ''None''"
| "py_repr pr (PBool b) = (if b then ''True'' else ''False'')"
| "py_repr pr (PInt n) = str_int n"
| "py_repr pr (PStr s) = repr_str pr s"
| "py_repr pr (PList xs) = ''['' @ join_sep '', '' (map (py_repr pr) xs) @ '']''"
| "py_repr pr (PDict kvs) =
     ''{'' @ join_sep '', '' (map (\<lambda>kv. repr_str pr (fst kv) @ '': '' @ snd kv)
                                  (map (map_prod id (py_repr pr)) kvs)) @ ''}''"

fun py_str :: "(nat \<Rightarrow> bool) \<Rightarrow> pyval \<Rightarrow> string" where
  "py_str pr (PStr s) = s"
| "py_str pr v = py_repr pr v"

section \<open>Message texts\<close>

text \<open>The Chinese message literals of \<open>plugin.py\<close>, as their UTF-8 bytes.\<close>

text \<open>\<open>msg_cannot_poke_self\<close>: the outcome message of the self-target rejection (line 403).\<close>

definition msg_cannot_poke_self :: string where
  "msg_cannot_poke_self = [
     CHR 0xE4, CHR 0xB8, CHR 0x8D, CHR 0xE8, CHR 0x83, CHR 0xBD, CHR 0xE6, CHR 0x88,
     CHR 0xB3, CHR 0xE8, CHR 0x87, CHR 0xAA, CHR 0xE5, CHR 0xB7, CHR 0xB1]"

text \<open>\<open>msg_operation_exception\<close>: prefix of the outcome message when the send raises (line 407).\<close>

definition msg_operation_exception :: string where
  "msg_operation_exception = [
     CHR 0xE6, CHR 0x88, CHR 0xB3, CHR 0xE4, CHR 0xB8, CHR 0x80, CHR 0xE6, CHR 0x88,
     CHR 0xB3, CHR 0xE6, CHR 0x93, CHR 0x8D, CHR 0xE4, CHR 0xBD, CHR 0x9C, CHR 0xE5,
     CHR 0xBC, CHR 0x82, CHR 0xE5, CHR 0xB8, CHR 0xB8, CHR 0x3A, CHR 0x20]"

text \<open>\<open>msg_operation_success\<close>: the outcome message of a success (line 412).\<close>

definition msg_operation_success :: string where
  "msg_operation_success = [
     CHR 0xE6, CHR 0x88, CHR 0xB3, CHR 0xE4, CHR 0xB8, CHR 0x80, CHR 0xE6, CHR 0x88,
     CHR 0xB3, CHR 0xE6, CHR 0x93, CHR 0x8D, CHR 0xE4, CHR 0xBD, CHR 0x9C, CHR 0xE6,
     CHR 0x88, CHR 0x90, CHR 0xE5, CHR 0x8A, CHR 0x9F]"

text \<open>\<open>msg_operation_failed\<close>: prefix of the outcome message of a failure (line 415).\<close>

definition msg_operation_failed :: string where
  "msg_operation_failed = [
     CHR 0xE6, CHR 0x88, CHR 0xB3, CHR 0xE4, CHR 0xB8, CHR 0x80, CHR 0xE6, CHR 0x88,
     CHR 0xB3, CHR 0xE6, CHR 0x93, CHR 0x8D, CHR 0xE4, CHR 0xBD, CHR 0x9C, CHR 0xE5,
     CHR 0xA4, CHR 0xB1, CHR 0xE8, CHR 0xB4, CHR 0xA5, CHR 0x3A, CHR 0x20]"

text \<open>\<open>msg_unknown_error\<close>: the replacement for an empty result (line 415).\<close>

definition msg_unknown_error :: string where
  "msg_unknown_error = [
     CHR 0xE6, CHR 0x9C, CHR 0xAA, CHR 0xE7, CHR 0x9F, CHR 0xA5, CHR 0xE9, CHR 0x94,
     CHR 0x99, CHR 0xE8, CHR 0xAF, CHR 0xAF]"

text \<open>\<open>msg_request_header\<close>: prefix of the debug line for the request (line 434).\<close>

definition msg_request_header :: string where
  "msg_request_header = [
     CHR 0xE6, CHR 0x88, CHR 0xB3, CHR 0xE4, CHR 0xB8, CHR 0x80, CHR 0xE6, CHR 0x88,
     CHR 0xB3, CHR 0xE8, CHR 0xAF, CHR 0xB7, CHR 0xE6, CHR 0xB1, CHR 0x82, CHR 0xE5,
     CHR 0xA4, CHR 0xB4, CHR 0x3A, CHR 0x20]"

text \<open>\<open>msg_response\<close>: prefix of the debug line for the response (line 441).\<close>

definition msg_response :: string where
  "msg_response = [
     CHR 0xE6, CHR 0x88, CHR 0xB3, CHR 0xE4, CHR 0xB8, CHR 0x80, CHR 0xE6, CHR 0x88,
     CHR 0xB3, CHR 0xE6, CHR 0x88, CHR 0x90, CHR 0xE5, CHR 0x8A, CHR 0x9F, CHR 0x21,
     CHR 0x20, CHR 0xE5, CHR 0x93, CHR 0x8D, CHR 0xE5, CHR 0xBA, CHR 0x94, CHR 0x3A,
     CHR 0x20]"

text \<open>\<open>msg_exception\<close>: prefix of the debug line for a caught exception (line 453).\<close>

definition msg_exception :: string where
  "msg_exception = [
     CHR 0xE6, CHR 0x88, CHR 0xB3, CHR 0xE4, CHR 0xB8, CHR 0x80, CHR 0xE6, CHR 0x88,
     CHR 0xB3, CHR 0xE5, CHR 0xBC, CHR 0x82, CHR 0xE5, CHR 0xB8, CHR 0xB8, CHR 0x3A,
     CHR 0x20]"

definition nl :: string where
  "nl = [CHR 0x0A]"

section \<open>The gateway and the libraries\<close>

text \<open>
  One HTTP exchange: \<open>conn.request("POST", endpoint, json.dumps(body), headers)\<close>,
  \<open>getresponse\<close>, \<open>read\<close>, \<open>decode("utf-8")\<close> and \<open>json.loads\<close>. The request is kept
  with its body before \<open>json.dumps\<close>. The reply is either an exception raised anywhere
  between \<open>request\<close> and \<open>decode\<close>, or the decoded text together with what
  \<open>json.loads\<close> makes of it (\<open>None\<close> when \<open>json.loads\<close> raises). The reply is a function
  of the requests made so far and of the request; every request that is attempted is
  appended to the trace.
\<close>

datatype pyexc = PyExc (exc_type: string) (exc_msg: string)

datatype request =
  Request (rq_host: pyval) (rq_port: int) (rq_endpoint: string) (rq_body: pyval)
    (rq_headers: "(string \<times> pyval) list")

datatype response =
    Raised pyexc
  | Received string "pyval option"

text \<open>
  What the program takes from outside: the table of printable code points, the
  exception that \<open>http.client.HTTPConnection\<close> raises for a host it rejects (its type
  and text vary with the host and the Python version), and the replies of the
  gateway.
\<close>

record world =
  printable :: "nat \<Rightarrow> bool"
  constructor_error :: "pyval \<Rightarrow> pyexc"
  reply :: "request list \<Rightarrow> request \<Rightarrow> response"

text \<open>
  \<open>http.client.HTTPConnection(host, port)\<close> with an integer port: the constructor
  strips one pair of square brackets from the host and raises \<open>InvalidURL\<close> when what
  is left holds a character of \<open>[\x00-\x20\x7f]\<close>; a host that is not a string makes it
  raise too (\<open>TypeError\<close>, \<open>KeyError\<close> for a non-empty dictionary). It opens no
  connection.
\<close>

definition strip_brackets :: "string \<Rightarrow> string" where
  "strip_brackets s =
     (if s \<noteq> [] \<and> hd s = CHR ''['' \<and> last s = CHR '']'' then butlast (tl s) else s)"

fun host_accepted :: "pyval \<Rightarrow> bool" where
  "host_accepted (PStr s) =
     list_all (\<lambda>c. 32 < (of_char c :: nat) \<and> c \<noteq> CHR 0x7F) (strip_brackets s)"
| "host_accepted _ = False"

definition http_connection :: "world \<Rightarrow> pyval \<Rightarrow> int \<Rightarrow> pyexc option" where
  "http_connection w host port =
     (if host_accepted host then None else Some (constructor_error w host))"

text \<open>\<open>headers = {"Content-Type": "application/json"}\<close>, plus \<open>Authorization\<close> when the
  token is truthy.\<close>

definition mk_headers :: "pyval \<Rightarrow> (string \<times> pyval) list" where
  "mk_headers tok =
     (''Content-Type'', PStr ''application/json'') #
     (if py_truthy tok then [(''Authorization'', tok)] else [])"

text \<open>\<open>x or y\<close> on conditions that may raise: \<open>y\<close> is evaluated only when \<open>x\<close> is false.\<close>

fun py_or :: "bool option \<Rightarrow> bool option \<Rightarrow> bool option" where
  "py_or None y = None"
| "py_or (Some True) y = Some True"
| "py_or (Some False) y = y"

text \<open>The value a \<open>try\<close> body returns, \<open>None\<close> when the handler \<open>except Exception: return
  None\<close> runs instead.\<close>

fun or_none :: "pyval option \<Rightarrow> pyval" where
  "or_none None = PNone"
| "or_none (Some v) = v"

section \<open>The lookups of \<open>ActivePokeAction\<close>\<close>

subsection \<open>\<open>napcat_get_group_member_id_by_name\<close> (lines 104-131)\<close>

fun member_loop :: "pyval \<Rightarrow> pyval list \<Rightarrow> pyval option" where
  "member_loop target_name [] = Some PNone"
| "member_loop target_name (member # rest) = do {
     nickname \<leftarrow> py_get member ''nickname'' (PStr []);
     card \<leftarrow> py_get member ''card'' (PStr []);
     remark \<leftarrow> py_get member ''remark'' (PStr []);
     hit \<leftarrow> py_or (py_in target_name nickname)
             (py_or (py_in target_name card) (py_in target_name remark));
     if hit then py_get member ''user_id'' PNone else member_loop target_name rest
   }"

definition member_body :: "pyval \<Rightarrow> pyval option \<Rightarrow> pyval option" where
  "member_body target_name parsed = do {
     data_json \<leftarrow> parsed;
     status \<leftarrow> py_get data_json ''status'' PNone;
     if status = PStr ''ok'' then do {
       d \<leftarrow> py_get data_json ''data'' PNone;
       if isinstance_list d then do {
         d' \<leftarrow> py_subscript data_json ''data'';
         members \<leftarrow> py_list d';
         member_loop target_name members
       } else Some PNone
     } else Some PNone
   }"

text \<open>The request of lines 110-116.\<close>

definition group_member_list_request :: "pyval \<Rightarrow> int \<Rightarrow> pyval \<Rightarrow> pyval \<Rightarrow> request" where
  "group_member_list_request host port tok group_id =
     Request host port ''/get_group_member_list''
       (PDict [(''group_id'', group_id), (''no_cache'', PBool False)]) (mk_headers tok)"

text \<open>The connection object is built (line 110) before the \<open>try\<close>: an exception of the
  constructor leaves the function, with no request made.\<close>

definition napcat_get_group_member_id_by_name ::
  "world \<Rightarrow> pyval \<Rightarrow> pyval \<Rightarrow> pyval \<Rightarrow> int \<Rightarrow> pyval \<Rightarrow> request list \<Rightarrow>
     (pyexc + pyval) \<times> request list" where
  "napcat_get_group_member_id_by_name w target_name group_id host port tok tr =
     (case http_connection w host port of
        Some e \<Rightarrow> (Inl e, tr)
      | None \<Rightarrow>
          (let rq = group_member_list_request host port tok group_id
           in (Inr (case reply w tr rq of
                      Raised e \<Rightarrow> PNone
                    | Received result parsed \<Rightarrow> or_none (member_body target_name parsed)),
               tr @ [rq])))"

subsection \<open>\<open>napcat_get_user_id_by_name\<close> (lines 193-221)\<close>

fun friend_loop :: "pyval \<Rightarrow> pyval list \<Rightarrow> pyval option" where
  "friend_loop target_name [] = Some PNone"
| "friend_loop target_name (friend # rest) = do {
     nickname \<leftarrow> py_get friend ''nickname'' (PStr []);
     remark \<leftarrow> py_get friend ''remark'' (PStr []);
     hit \<leftarrow> py_or (py_in target_name nickname) (py_in target_name remark);
     if hit then py_get friend ''user_id'' PNone else friend_loop target_name rest
   }"

definition friend_body :: "pyval \<Rightarrow> pyval option \<Rightarrow> pyval option" where
  "friend_body target_name parsed = do {
     data_json \<leftarrow> parsed;
     status \<leftarrow> py_get data_json ''status'' PNone;
     if status = PStr ''ok'' then do {
       d \<leftarrow> py_get data_json ''data'' PNone;
       if isinstance_list d then do {
         d' \<leftarrow> py_subscript data_json ''data'';
         friends \<leftarrow> py_list d';
         friend_loop target_name friends
       } else Some PNone
     } else Some PNone
   }"

text \<open>The request of lines 200-206.\<close>

definition friend_list_request :: "pyval \<Rightarrow> int \<Rightarrow> pyval \<Rightarrow> request" where
  "friend_list_request host port tok =
     Request host port ''/get_friend_list'' (PDict [(''no_cache'', PBool False)]) (mk_headers tok)"

text \<open>The \<open>group_id\<close> parameter is accepted and not used.\<close>

text \<open>The connection object is built (line 200) before the \<open>try\<close>: an exception of the
  constructor leaves the function, with no request made.\<close>

definition napcat_get_user_id_by_name ::
  "world \<Rightarrow> pyval \<Rightarrow> pyval \<Rightarrow> pyval \<Rightarrow> int \<Rightarrow> pyval \<Rightarrow> request list \<Rightarrow>
     (pyexc + pyval) \<times> request list" where
  "napcat_get_user_id_by_name w target_name group_id host port tok tr =
     (case http_connection w host port of
        Some e \<Rightarrow> (Inl e, tr)
      | None \<Rightarrow>
          (let rq = friend_list_request host port tok
           in (Inr (case reply w tr rq of
                      Raised e \<Rightarrow> PNone
                    | Received result parsed \<Rightarrow> or_none (friend_body target_name parsed)),
               tr @ [rq])))"

subsection \<open>\<open>napcat_get_group_id_by_name\<close> (lines 223-251)\<close>

fun group_loop :: "pyval \<Rightarrow> pyval list \<Rightarrow> pyval option" where
  "group_loop target_name [] = Some PNone"
| "group_loop target_name (grp # rest) = do {
     group_name \<leftarrow> py_get grp ''group_name'' (PStr []);
     group_remark \<leftarrow> py_get grp ''group_remark'' (PStr []);
     hit \<leftarrow> py_or (py_in target_name group_name) (py_in target_name group_remark);
     if hit then py_get grp ''group_id'' PNone else group_loop target_name rest
   }"

definition group_body :: "pyval \<Rightarrow> pyval option \<Rightarrow> pyval option" where
  "group_body target_name parsed = do {
     data_json \<leftarrow> parsed;
     status \<leftarrow> py_get data_json ''status'' PNone;
     if status = PStr ''ok'' then do {
       d \<leftarrow> py_get data_json ''data'' PNone;
       if isinstance_list d then do {
         d' \<leftarrow> py_subscript data_json ''data'';
         groups \<leftarrow> py_list d';
         group_loop target_name groups
       } else Some PNone
     } else Some PNone
   }"

text \<open>The request of lines 230-236.\<close>

definition group_list_request :: "pyval \<Rightarrow> int \<Rightarrow> pyval \<Rightarrow> request" where
  "group_list_request host port tok =
     Request host port ''/get_group_list'' (PDict [(''no_cache'', PBool False)]) (mk_headers tok)"

text \<open>The connection object is built (line 230) before the \<open>try\<close>: an exception of the
  constructor leaves the function, with no request made.\<close>

definition napcat_get_group_id_by_name ::
  "world \<Rightarrow> pyval \<Rightarrow> pyval \<Rightarrow> int \<Rightarrow> pyval \<Rightarrow> request list \<Rightarrow>
     (pyexc + pyval) \<times> request list" where
  "napcat_get_group_id_by_name w target_name host port tok tr =
     (case http_connection w host port of
        Some e \<Rightarrow> (Inl e, tr)
      | None \<Rightarrow>
          (let rq = group_list_request host port tok
           in (Inr (case reply w tr rq of
                      Raised e \<Rightarrow> PNone
                    | Received result parsed \<Rightarrow> or_none (group_body target_name parsed)),
               tr @ [rq])))"

subsection \<open>\<open>napcat_get_user_id_from_group_history_by_msg\<close> (lines 324-350)\<close>

fun history_loop :: "pyval \<Rightarrow> pyval list \<Rightarrow> pyval option" where
  "history_loop poke_keywords [] = Some PNone"
| "history_loop poke_keywords (msg # rest) = do {
     raw_message \<leftarrow> py_get msg ''raw_message'' (PStr []);
     sender \<leftarrow> py_get msg ''sender'' (PDict []);
     hit \<leftarrow> py_in poke_keywords raw_message;
     if hit then py_get sender ''user_id'' PNone else history_loop poke_keywords rest
   }"

definition history_body :: "pyval \<Rightarrow> pyval option \<Rightarrow> pyval option" where
  "history_body poke_keywords parsed = do {
     data_json \<leftarrow> parsed;
     status \<leftarrow> py_get data_json ''status'' PNone;
     if status = PStr ''ok'' then do {
       d \<leftarrow> py_get data_json ''data'' (PDict []);
       ms \<leftarrow> py_get d ''messages'' (PList []);
       if isinstance_list ms then do {
         d' \<leftarrow> py_subscript data_json ''data'';
         ms' \<leftarrow> py_subscript d' ''messages'';
         messages \<leftarrow> py_list ms';
         history_loop poke_keywords messages
       } else Some PNone
     } else Some PNone
   }"

text \<open>The request of lines 330-336.\<close>

definition group_msg_history_request :: "pyval \<Rightarrow> int \<Rightarrow> pyval \<Rightarrow> pyval \<Rightarrow> request" where
  "group_msg_history_request host port tok group_id =
     Request host port ''/get_group_msg_history''
       (PDict [(''group_id'', group_id), (''message_seq'', PInt 0),
               (''count'', PInt 20), (''reverseOrder'', PBool False)])
       (mk_headers tok)"

text \<open>The connection object is built (line 330) before the \<open>try\<close>: an exception of the
  constructor leaves the function, with no request made.\<close>

definition napcat_get_user_id_from_group_history_by_msg ::
  "world \<Rightarrow> pyval \<Rightarrow> pyval \<Rightarrow> pyval \<Rightarrow> int \<Rightarrow> pyval \<Rightarrow> request list \<Rightarrow>
     (pyexc + pyval) \<times> request list" where
  "napcat_get_user_id_from_group_history_by_msg w poke_keywords group_id host port tok tr =
     (case http_connection w host port of
        Some e \<Rightarrow> (Inl e, tr)
      | None \<Rightarrow>
          (let rq = group_msg_history_request host port tok group_id
           in (Inr (case reply w tr rq of
                      Raised e \<Rightarrow> PNone
                    | Received result parsed \<Rightarrow> or_none (history_body poke_keywords parsed)),
               tr @ [rq])))"

section \<open>The action object\<close>

text \<open>
  What \<open>get_ids\<close>, \<open>send_poke\<close> and \<open>execute\<close> read from \<open>self\<close>. An attribute that may be
  missing is an \<open>option\<close>: \<open>None\<close> stands for a missing attribute, and for \<open>message\<close> and
  \<open>chat_stream\<close> also for a falsy one. \<open>napcat_port\<close> holds the outcome of
  \<open>int(self.napcat_port)\<close>, which raises when the configured port is not a number.
  \<open>reload_raises\<close> is the outcome of lines 385-395 of \<open>execute\<close> (the plugin's
  configuration check and the reload of \<open>plugin_config\<close>, which nothing below reads
  again): the exception when one propagates.
\<close>

datatype message_info = MessageInfo (mi_group_id: "pyval option")

datatype message = Message (message_info: "message_info option")

datatype chat_stream = ChatStream (cs_group_id: "pyval option")

record action =
  action_data :: "string \<rightharpoonup> pyval"
  message :: "message option"
  chat_stream :: "chat_stream option"
  attr_group_id :: "pyval option"
  attr_user_id :: "pyval option"
  napcat_host :: pyval
  napcat_port :: "pyexc + int"
  poke_debug :: pyval
  token :: pyval
  reload_raises :: "pyexc option"

text \<open>\<open>getattr(obj, name, None)\<close> and \<open>dict.get(key, None)\<close>.\<close>

fun getattr_none :: "pyval option \<Rightarrow> pyval" where
  "getattr_none None = PNone"
| "getattr_none (Some v) = v"

subsection \<open>The context group of \<open>get_ids\<close> (lines 285-294)\<close>

definition context_group_id :: "action \<Rightarrow> pyval" where
  "context_group_id a =
     (let g0 = PNone;
          g1 = (case message a of
                  None \<Rightarrow> g0
                | Some m \<Rightarrow>
                    (case message_info m of
                       None \<Rightarrow> g0
                     | Some mi \<Rightarrow> getattr_none (mi_group_id mi)));
          g2 = (if g1 = PNone then
                  (case chat_stream a of
                     None \<Rightarrow> g1
                   | Some cs \<Rightarrow>
                       (case cs_group_id cs of None \<Rightarrow> g1 | Some g \<Rightarrow> g))
                else g1);
          g3 = (if g2 = PNone then getattr_none (action_data a ''group_id'') else g2);
          g4 = (if g3 = PNone then
                  (case attr_group_id a of
                     None \<Rightarrow> g3
                   | Some g \<Rightarrow> if py_truthy g then g else g3)
                else g3)
      in g4)"

subsection \<open>\<open>get_ids\<close> (lines 281-322)\<close>

text \<open>An exception of the port conversion (line 303) or of a lookup leaves \<open>get_ids\<close>.\<close>

definition get_ids ::
  "world \<Rightarrow> action \<Rightarrow> request list \<Rightarrow> (pyexc + pyval \<times> pyval) \<times> request list" where
  "get_ids w a tr =
     (let group_id = context_group_id a;
          poke_keywords = getattr_none (action_data a ''poke_keywords'')
      in if \<not> py_truthy poke_keywords then (Inr (PNone, group_id), tr)
         else
           (case napcat_port a of
              Inl e \<Rightarrow> (Inl e, tr)
            | Inr port \<Rightarrow>
                (let host = napcat_host a;
                     tok = token a
                 in (case (if py_truthy group_id then
                             (case napcat_get_user_id_from_group_history_by_msg
                                     w poke_keywords group_id host port tok tr of
                                (Inl e, t) \<Rightarrow> (Inl e, t)
                              | (Inr u, t) \<Rightarrow>
                                  if \<not> py_truthy u
                                  then napcat_get_group_member_id_by_name
                                         w poke_keywords group_id host port tok t
                                  else (Inr u, t))
                           else napcat_get_user_id_by_name
                                  w poke_keywords PNone host port tok tr) of
                       (Inl e, tr1) \<Rightarrow> (Inl e, tr1)
                     | (Inr user_id, tr1) \<Rightarrow>
                         (case (if \<not> py_truthy group_id
                                then napcat_get_group_id_by_name
                                       w poke_keywords host port tok tr1
                                else (Inr group_id, tr1)) of
                            (Inl e, tr2) \<Rightarrow> (Inl e, tr2)
                          | (Inr group_id', tr2) \<Rightarrow>
                              (let user_id' = (if \<not> py_truthy user_id
                                               then getattr_none (attr_user_id a)
                                               else user_id)
                               in (Inr (user_id', group_id'), tr2)))))))"

subsection \<open>\<open>send_poke\<close> (lines 418-454)\<close>

text \<open>The request of lines 424-436.\<close>

definition send_poke_request :: "action \<Rightarrow> int \<Rightarrow> pyval \<Rightarrow> pyval \<Rightarrow> request" where
  "send_poke_request a port user_id group_id =
     Request (napcat_host a) port ''/send_poke''
       (PDict ((''user_id'', user_id) #
               (if group_id \<noteq> PNone then [(''group_id'', group_id)] else [])))
       (mk_headers (token a))"

text \<open>The debug line of line 434, present when \<open>poke_debug\<close> is truthy.\<close>

definition request_debug :: "world \<Rightarrow> action \<Rightarrow> pyval \<Rightarrow> pyval \<Rightarrow> string list" where
  "request_debug w a user_id group_id =
     (if py_truthy (poke_debug a)
      then [msg_request_header @ py_str (printable w) (PDict (mk_headers (token a))) @
            '', user_id: '' @ py_str (printable w) user_id @
            '', group_id: '' @ py_str (printable w) group_id]
      else [])"

text \<open>The debug line of lines 449-453 for a caught exception.\<close>

definition exception_line :: "world \<Rightarrow> pyexc \<Rightarrow> string" where
  "exception_line w e =
     (let error_info = PDict [(''error_type'', PStr (exc_type e)),
                              (''error_message'', PStr (exc_msg e))]
      in msg_exception @ py_str (printable w) error_info)"

text \<open>
  The port is converted and the connection object built (lines 421 and 424) before
  the \<open>try\<close> of line 435: an exception of either leaves \<open>send_poke\<close>, with no request
  made.
\<close>

definition send_poke ::
  "world \<Rightarrow> action \<Rightarrow> pyval \<Rightarrow> pyval \<Rightarrow> request list \<Rightarrow> (pyexc + bool \<times> string) \<times> request list" where
  "send_poke w a user_id group_id tr =
     (case napcat_port a of
        Inl e \<Rightarrow> (Inl e, tr)
      | Inr port \<Rightarrow>
          (case http_connection w (napcat_host a) port of
             Some e \<Rightarrow> (Inl e, tr)
           | None \<Rightarrow>
               (let rq = send_poke_request a port user_id group_id;
                    debug_msgs = request_debug w a user_id group_id
                in (case reply w tr rq of
                      Raised e \<Rightarrow>
                        (let debug_msgs' = debug_msgs @ [exception_line w e]
                         in Inr (False, join_sep nl debug_msgs'))
                    | Received result parsed \<Rightarrow>
                        (let debug_msgs' = debug_msgs @
                               (if py_truthy (poke_debug a) then [msg_response @ result]
                                else [])
                         in (case do {
                                    data_json \<leftarrow> parsed;
                                    status \<leftarrow> py_get data_json ''status'' PNone;
                                    Some (status = PStr ''ok'',
                                          join_sep nl (debug_msgs' @
                                            [py_str (printable w) data_json]))
                                  } of
                               Some r \<Rightarrow> Inr r
                             | None \<Rightarrow> Inr (True, join_sep nl (debug_msgs' @ [result])))),
                    tr @ [rq]))))"

subsection \<open>\<open>execute\<close> (lines 383-416)\<close>

text \<open>
  The result is the outcome (\<open>Inl\<close> for an exception that leaves \<open>execute\<close>), the action
  object afterwards and the requests made. \<open>send_poke\<close> returns a string as its second
  component, so line 415 takes the branch \<open>str(result) or '...'\<close>.
\<close>

definition execute :: "world \<Rightarrow> action \<Rightarrow> (pyexc + bool \<times> string) \<times> action \<times> request list" where
  "execute w a =
     (case reload_raises a of
        Some e \<Rightarrow> (Inl e, a, [])
      | None \<Rightarrow>
          (case get_ids w a [] of
             (Inl e, tr) \<Rightarrow> (Inl e, a, tr)
           | (Inr (user_id, group_id), tr) \<Rightarrow>
               (let self_id = getattr_none (action_data a ''self_id'')
                in if py_truthy self_id \<and>
                      py_str (printable w) user_id = py_str (printable w) self_id
                   then (Inr (False, msg_cannot_poke_self), a, tr)
                   else
                     (case send_poke w a user_id group_id tr of
                        (Inl e, tr') \<Rightarrow> (Inr (False, msg_operation_exception @ exc_msg e), a, tr')
                      | (Inr (success, result), tr') \<Rightarrow>
                          (let a' = (if action_data a ''user_id'' \<noteq> None
                                     then a\<lparr>action_data := (action_data a)(''user_id'' \<mapsto> PNone)\<rparr>
                                     else a)
                           in if success then (Inr (True, msg_operation_success), a', tr')
                              else (Inr (False, msg_operation_failed @
                                          (if result \<noteq> [] then result else msg_unknown_error)),
                                    a', tr'))))))"

section \<open>The stated precedence of the context group\<close>

text \<open>
  The four sources of the context group, in the order \<open>get_ids\<close> consults them, each
  \<open>None\<close> when the attribute or key is missing; and the rule "the first source that
  is not \<open>None\<close>", to compare \<open>context_group_id\<close> with.
\<close>

definition src_message :: "action \<Rightarrow> pyval" where
  "src_message a =
     (case message a of
        None \<Rightarrow> PNone
      | Some m \<Rightarrow>
          (case message_info m of None \<Rightarrow> PNone | Some mi \<Rightarrow> getattr_none (mi_group_id mi)))"

definition src_chat_stream :: "action \<Rightarrow> pyval" where
  "src_chat_stream a =
     (case chat_stream a of None \<Rightarrow> PNone | Some cs \<Rightarrow> getattr_none (cs_group_id cs))"

definition src_action_data :: "action \<Rightarrow> pyval" where
  "src_action_data a = getattr_none (action_data a ''group_id'')"

definition src_attribute :: "action \<Rightarrow> pyval" where
  "src_attribute a = getattr_none (attr_group_id a)"

fun first_non_none :: "pyval list \<Rightarrow> pyval" where
  "first_non_none [] = PNone"
| "first_non_none (v # vs) = (if v = PNone then first_non_none vs else v)"

section \<open>Scenarios\<close>

text \<open>
  An action whose only context is its own \<open>group_id\<close> attribute (group 100), with the
  keyword \<open>hello\<close>, debugging off and no token; the gateway scenarios answer it.
\<close>

definition ex_action :: action where
  "ex_action =
     \<lparr>action_data = [''poke_keywords'' \<mapsto> PStr ''hello''],
      message = None, chat_stream = None,
      attr_group_id = Some (PInt 100), attr_user_id = None,
      napcat_host = PStr ''127.0.0.1'', napcat_port = Inr 4999,
      poke_debug = PBool False, token = PStr [], reload_raises = None\<rparr>"

text \<open>
  The worlds of the scenarios differ in the replies of the gateway only. Their hosts
  are accepted by the constructor and their texts are ASCII, so that neither the
  exception of the constructor nor the table of printable code points is used.
\<close>

definition ex_world :: "(request list \<Rightarrow> request \<Rightarrow> response) \<Rightarrow> world" where
  "ex_world r =
     \<lparr>printable = (\<lambda>cp. True),
      constructor_error = (\<lambda>host. PyExc ''InvalidURL'' ''rejected host''),
      reply = r\<rparr>"

text \<open>A gateway that answers every request with a page that is not JSON.\<close>

definition gw_html :: world where
  "gw_html = ex_world (\<lambda>tr rq. Received ''<html>'' None)"

text \<open>A gateway that cannot be reached: every request raises.\<close>

definition gw_down :: world where
  "gw_down =
     ex_world (\<lambda>tr rq.
       Raised (PyExc ''ConnectionRefusedError'' ''[Errno 111] Connection refused''))"

text \<open>
  A gateway with two messages in the history of the group, the second of which holds
  the keyword and was sent by \<open>uid\<close>, with one group member whose nickname holds the
  keyword, and which turns every poke down with a JSON error. The friend list and
  the group list cannot be reached.
\<close>

definition scene_reply :: "int \<Rightarrow> request list \<Rightarrow> request \<Rightarrow> response" where
  \<open>scene_reply uid tr rq =
     (if rq_endpoint rq = ''/get_group_msg_history'' then
        Received (''{"status": "ok", "data": {"messages": ['' @
                  ''{"raw_message": "good morning", "sender": {"user_id": 111}}, '' @
                  ''{"raw_message": "hello world", "sender": {"user_id": '' @ str_int uid @
                  ''}}]}}'')
          (Some (PDict [(''status'', PStr ''ok''),
             (''data'', PDict [(''messages'', PList
                [PDict [(''raw_message'', PStr ''good morning''),
                        (''sender'', PDict [(''user_id'', PInt 111)])],
                 PDict [(''raw_message'', PStr ''hello world''),
                        (''sender'', PDict [(''user_id'', PInt uid)])]])])]))
      else if rq_endpoint rq = ''/get_group_member_list'' then
        Received ''{"status": "ok", "data": [{"nickname": "hello", "user_id": 222}]}''
          (Some (PDict [(''status'', PStr ''ok''),
             (''data'', PList [PDict [(''nickname'', PStr ''hello''),
                                      (''user_id'', PInt 222)]])]))
      else if rq_endpoint rq = ''/send_poke'' then
        Received ''{"status": "failed", "message": "no such user"}''
          (Some (PDict [(''status'', PStr ''failed''), (''message'', PStr ''no such user'')]))
      else Raised (PyExc ''ConnectionRefusedError'' ''[Errno 111] Connection refused''))\<close>

definition gw_scene :: "int \<Rightarrow> world" where
  "gw_scene uid = ex_world (scene_reply uid)"

text \<open>The action with no context group at all.\<close>

definition ex_no_group :: action where
  "ex_no_group = ex_action\<lparr>attr_group_id := None\<rparr>"

text \<open>The action of a bot whose own identity 12345 is supplied as \<open>self_id\<close>, with a
  \<open>user_id\<close> entry left in \<open>action_data\<close>.\<close>

definition ex_self :: action where
  "ex_self = ex_action\<lparr>action_data :=
     [''poke_keywords'' \<mapsto> PStr ''hello'', ''self_id'' \<mapsto> PInt 12345,
      ''user_id'' \<mapsto> PInt 54321]\<rparr>"

text \<open>The action whose ambient \<open>user_id\<close> attribute and whose \<open>self_id\<close> are both 0.\<close>

definition ex_zero :: action where
  "ex_zero = ex_action\<lparr>action_data :=
     [''poke_keywords'' \<mapsto> PStr ''hello'', ''self_id'' \<mapsto> PInt 0],
     attr_user_id := Some (PInt 0)\<rparr>"


text \<open>The action without keyword whose configured port is \<open>abc\<close>, with a \<open>user_id\<close>
  entry left in \<open>action_data\<close>.\<close>

definition ex_bad_port :: action where
  "ex_bad_port = ex_action\<lparr>action_data := [''user_id'' \<mapsto> PInt 54321],
     napcat_port := Inl (PyExc ''ValueError''
       (''invalid literal for int() with base 10: '' @ [CHR 0x27] @ ''abc'' @ [CHR 0x27]))\<rparr>"

section \<open>Gateway failures and well-formed history\<close>


text \<open>
  The text of a history message: the message is a mapping whose \<open>raw_message\<close> is a
  string, or is missing (line 343 then reads the empty string).
\<close>

fun raw_text :: "pyval \<Rightarrow> string option" where
  "raw_text (PDict kvs) =
     (case map_of kvs ''raw_message'' of
        None \<Rightarrow> Some []
      | Some (PStr s) \<Rightarrow> Some s
      | Some _ \<Rightarrow> None)"
| "raw_text _ = None"

text \<open>The \<open>user_id\<close> of the sender of a history message, as lines 344 and 346 read it.\<close>

definition sender_user_id :: "pyval \<Rightarrow> pyval option" where
  "sender_user_id msg = do {
     sender \<leftarrow> py_get msg ''sender'' (PDict []);
     py_get sender ''user_id'' PNone
   }"



text \<open>The action whose keyword matches no message and no member.\<close>

definition ex_unresolved :: action where
  "ex_unresolved = ex_action\<lparr>action_data := [''poke_keywords'' \<mapsto> PStr ''nobody'']\<rparr>"

text \<open>The same action when the host supplies the string \<open>None\<close> as \<open>self_id\<close>.\<close>

definition ex_none_self :: action where
  "ex_none_self = ex_action\<lparr>action_data :=
     [''poke_keywords'' \<mapsto> PStr ''nobody'', ''self_id'' \<mapsto> PStr ''None'']\<rparr>"

section \<open>The constructor of the connection\<close>

text \<open>A host with a newline is rejected; \<open>send_poke\<close> then raises and makes no request.\<close>

lemma newline_host_rejected: "\<not> host_accepted (PStr (''127.0.0.1'' @ [CHR 0x0A]))"
  by (simp add: strip_brackets_def)

lemma send_poke_rejected_host:
  assumes "napcat_port a = Inr port" and "\<not> host_accepted (napcat_host a)"
  shows "send_poke w a user_id group_id tr = (Inl (constructor_error w (napcat_host a)), tr)"
  using assms by (simp add: send_poke_def http_connection_def)

section \<open>The success criterion of \<open>send_poke\<close>\<close>

text \<open>
  C1, as stated: \<open>send_poke\<close> reports success if and only if the body parses as JSON
  and its status is \<open>"ok"\<close>; a body that does not parse is a failure. It fails on a
  body that is not JSON: the handler of the inner \<open>try\<close> (line 446) returns \<open>True\<close>
  with the raw text.
\<close>

theorem C1_unparsable_body_is_success:
  "send_poke gw_html ex_action (PInt 12345) PNone [] =
     (Inr (True, ''<html>''), [send_poke_request ex_action 4999 (PInt 12345) PNone])"
  by (simp add: send_poke_def gw_html_def ex_world_def ex_action_def request_debug_def
        http_connection_def strip_brackets_def)

text \<open>
  C1, amended: with a port that converts and a host that the constructor of the
  connection accepts, \<open>send_poke\<close> does not raise, and it reports success exactly when
  a response was received and either the body does not parse as a JSON object
  (\<open>json.loads\<close> or \<open>.get\<close> raises) or the status of the parsed object is \<open>"ok"\<close>. It
  reports failure exactly on a connection error and on a parsed object whose status
  is not \<open>"ok"\<close>.
\<close>

theorem C1_send_poke_success:
  assumes "napcat_port a = Inr port" and "host_accepted (napcat_host a)"
  shows "\<exists>msg. fst (send_poke w a user_id group_id tr) =
     Inr ((case reply w tr (send_poke_request a port user_id group_id) of
             Raised e \<Rightarrow> False
           | Received result None \<Rightarrow> True
           | Received result (Some data_json) \<Rightarrow>
               (case py_get data_json ''status'' PNone of
                  None \<Rightarrow> True
                | Some status \<Rightarrow> status = PStr ''ok'')), msg)"
  using assms
  by (auto simp: send_poke_def http_connection_def Let_def
           split: response.splits option.splits)

theorem C1_send_poke_success_witness:
  "napcat_port ex_action = Inr 4999 \<and> host_accepted (napcat_host ex_action) \<and>
   (\<exists>msg. fst (send_poke gw_html ex_action (PInt 12345) PNone []) = Inr (True, msg))"
proof -
  have p: "napcat_port ex_action = Inr 4999"
    by (simp add: ex_action_def)
  have h: "host_accepted (napcat_host ex_action)"
    by (simp add: ex_action_def strip_brackets_def)
  from C1_send_poke_success [OF p h, of gw_html "PInt 12345" PNone "[]"] p h
  show ?thesis by (simp add: gw_html_def ex_world_def)
qed

section \<open>The precedence of the context group\<close>

text \<open>
  C10, as stated: the context group is the first source that is not \<open>None\<close>, in the
  order message, chat stream, \<open>action_data\<close>, own attribute. It fails when the own
  attribute is the only source and is falsy without being \<open>None\<close>: line 293 takes the
  attribute only when it is truthy.
\<close>

theorem C10_falsy_attribute_skipped:
  "context_group_id (ex_action\<lparr>attr_group_id := Some (PInt 0)\<rparr>) = PNone \<and>
   first_non_none
     [src_message (ex_action\<lparr>attr_group_id := Some (PInt 0)\<rparr>),
      src_chat_stream (ex_action\<lparr>attr_group_id := Some (PInt 0)\<rparr>),
      src_action_data (ex_action\<lparr>attr_group_id := Some (PInt 0)\<rparr>),
      src_attribute (ex_action\<lparr>attr_group_id := Some (PInt 0)\<rparr>)] = PInt 0"
  by (simp add: context_group_id_def src_message_def src_chat_stream_def src_action_data_def
        src_attribute_def ex_action_def)

text \<open>
  C10, amended: the context group is the first source that is not \<open>None\<close> in that
  order, where the last source, the own attribute, counts only when it is truthy.
\<close>

theorem C10_context_group_precedence:
  "context_group_id a =
     first_non_none
       [src_message a, src_chat_stream a, src_action_data a,
        if py_truthy (src_attribute a) then src_attribute a else PNone]"
  by (auto simp: context_group_id_def src_message_def src_chat_stream_def src_action_data_def
        src_attribute_def Let_def split: option.splits)

theorem C10_context_group_precedence_witness:
  "context_group_id (ex_action\<lparr>chat_stream := Some (ChatStream (Some (PInt 7)))\<rparr>) = PInt 7"
  using C10_context_group_precedence
          [of "ex_action\<lparr>chat_stream := Some (ChatStream (Some (PInt 7)))\<rparr>"]
  by (simp add: src_message_def src_chat_stream_def src_action_data_def
        src_attribute_def ex_action_def)

section \<open>The requests of the lookups\<close>

text \<open>With a host that the constructor accepts, a lookup makes its one request and
  returns; with a host that it rejects, the lookup raises and makes none.\<close>

lemma lookups_accepted:
  assumes "host_accepted h"
  shows "napcat_get_user_id_from_group_history_by_msg w k g h p t tr =
           (Inr (case reply w tr (group_msg_history_request h p t g) of
                   Raised e \<Rightarrow> PNone
                 | Received result parsed \<Rightarrow> or_none (history_body k parsed)),
            tr @ [group_msg_history_request h p t g])"
    and "napcat_get_group_member_id_by_name w k g h p t tr =
           (Inr (case reply w tr (group_member_list_request h p t g) of
                   Raised e \<Rightarrow> PNone
                 | Received result parsed \<Rightarrow> or_none (member_body k parsed)),
            tr @ [group_member_list_request h p t g])"
    and "napcat_get_user_id_by_name w k g h p t tr =
           (Inr (case reply w tr (friend_list_request h p t) of
                   Raised e \<Rightarrow> PNone
                 | Received result parsed \<Rightarrow> or_none (friend_body k parsed)),
            tr @ [friend_list_request h p t])"
    and "napcat_get_group_id_by_name w k h p t tr =
           (Inr (case reply w tr (group_list_request h p t) of
                   Raised e \<Rightarrow> PNone
                 | Received result parsed \<Rightarrow> or_none (group_body k parsed)),
            tr @ [group_list_request h p t])"
  using assms
  by (simp_all add: napcat_get_user_id_from_group_history_by_msg_def
        napcat_get_group_member_id_by_name_def napcat_get_user_id_by_name_def
        napcat_get_group_id_by_name_def http_connection_def Let_def)

lemma lookups_rejected:
  assumes "\<not> host_accepted h"
  shows "napcat_get_user_id_from_group_history_by_msg w k g h p t tr =
           (Inl (constructor_error w h), tr)"
    and "napcat_get_group_member_id_by_name w k g h p t tr = (Inl (constructor_error w h), tr)"
    and "napcat_get_user_id_by_name w k g h p t tr = (Inl (constructor_error w h), tr)"
    and "napcat_get_group_id_by_name w k h p t tr = (Inl (constructor_error w h), tr)"
  using assms
  by (simp_all add: napcat_get_user_id_from_group_history_by_msg_def
        napcat_get_group_member_id_by_name_def napcat_get_user_id_by_name_def
        napcat_get_group_id_by_name_def http_connection_def)

text \<open>With a host that the constructor rejects, \<open>get_ids\<close> with a keyword raises and
  makes no request.\<close>

lemma get_ids_rejected_host:
  assumes "napcat_port a = Inr port" and "\<not> host_accepted (napcat_host a)"
    and "py_truthy (getattr_none (action_data a ''poke_keywords''))"
  shows "get_ids w a tr = (Inl (constructor_error w (napcat_host a)), tr)"
  using assms by (simp add: get_ids_def Let_def lookups_rejected)

text \<open>Whatever the gateway answers, \<open>get_ids\<close> only adds lookup requests to the trace.\<close>

lemma get_ids_trace_lookup_only:
  "\<exists>ext. snd (get_ids w a tr) = tr @ ext \<and>
     set (map rq_endpoint ext) \<subseteq>
       {''/get_group_msg_history'', ''/get_group_member_list'', ''/get_friend_list'',
        ''/get_group_list''}"
proof (cases "host_accepted (napcat_host a)")
  case True
  then show ?thesis
    by (cases "napcat_port a")
       (auto simp: get_ids_def Let_def lookups_accepted group_msg_history_request_def
          group_member_list_request_def friend_list_request_def group_list_request_def)
next
  case False
  then show ?thesis
    by (cases "napcat_port a") (auto simp: get_ids_def Let_def lookups_rejected)
qed

lemmas lookup_defs =
  napcat_get_user_id_from_group_history_by_msg_def napcat_get_group_member_id_by_name_def
  napcat_get_user_id_by_name_def napcat_get_group_id_by_name_def
  group_msg_history_request_def group_member_list_request_def friend_list_request_def
  group_list_request_def history_body_def member_body_def friend_body_def group_body_def
  mk_headers_def http_connection_def strip_brackets_def

lemmas scene_simps =
  lookup_defs get_ids_def context_group_id_def send_poke_def send_poke_request_def
  request_debug_def exception_line_def execute_def ex_action_def ex_world_def gw_scene_def
  scene_reply_def gw_down_def Let_def sublist_Cons_right str_int_def digits.simps

section \<open>Resolution without a context group\<close>

text \<open>
  C5, as stated: without a context group the resolver queries the friend list and no
  other endpoint. It fails on the last part: \<open>get_ids\<close> goes on to the group list
  (lines 316-317).
\<close>

theorem C5_group_list_is_queried_too:
  "context_group_id ex_no_group = PNone \<and>
   map rq_endpoint (snd (get_ids gw_down ex_no_group [])) =
     [''/get_friend_list'', ''/get_group_list'']"
  by (simp add: scene_simps ex_no_group_def)

text \<open>
  C5, amended: when the context group is absent (or falsy), the resolver never calls
  the group-member-list or the group-message-history endpoint; with a keyword, a
  port that converts and a host that the constructor of the connection accepts it
  queries the friend list and then the group list, and otherwise it makes no
  request at all.
\<close>

theorem C5_no_group_requests:
  assumes "\<not> py_truthy (context_group_id a)"
  shows "snd (get_ids w a tr) =
     (if py_truthy (getattr_none (action_data a ''poke_keywords''))
      then (case napcat_port a of
              Inl e \<Rightarrow> tr
            | Inr port \<Rightarrow>
                if host_accepted (napcat_host a)
                then tr @ [friend_list_request (napcat_host a) port (token a),
                           group_list_request (napcat_host a) port (token a)]
                else tr)
      else tr)"
  using assms
  by (simp add: get_ids_def Let_def lookups_accepted lookups_rejected split: sum.splits)

theorem C5_no_group_requests_witness:
  "\<not> py_truthy (context_group_id ex_no_group) \<and>
   snd (get_ids gw_down ex_no_group []) =
     [friend_list_request (PStr ''127.0.0.1'') 4999 (PStr []),
      group_list_request (PStr ''127.0.0.1'') 4999 (PStr [])]"
proof -
  have h: "\<not> py_truthy (context_group_id ex_no_group)"
    by (simp add: context_group_id_def ex_no_group_def ex_action_def)
  from C5_no_group_requests [OF h, of gw_down "[]"] h
  show ?thesis by (simp add: ex_no_group_def ex_action_def strip_brackets_def)
qed

section \<open>Gateway failures during resolution\<close>










section \<open>Resolution from the group history\<close>

lemma history_loop_skip:
  assumes "\<forall>x\<in>set pre. \<exists>s. raw_text x = Some s \<and> \<not> sublist k s"
  shows "history_loop (PStr k) (pre @ rest) = history_loop (PStr k) rest"
  using assms
proof (induction pre)
  case Nil
  then show ?case by simp
next
  case (Cons x pre)
  then obtain s where s: "raw_text x = Some s" "\<not> sublist k s" by auto
  then obtain kvs where x: "x = PDict kvs" by (cases x) auto
  from s x Cons show ?case
    by (auto split: option.splits pyval.splits)
qed

lemma history_loop_hit:
  assumes "raw_text m = Some s" "sublist k s" "sender_user_id m = Some u"
  shows "history_loop (PStr k) (m # post) = Some u"
proof -
  from assms(1) obtain kvs where m: "m = PDict kvs" by (cases m) auto
  from assms m show ?thesis
    by (auto simp: sender_user_id_def split: option.splits pyval.splits)
qed

text \<open>
  C4, as stated: with a known context group and a keyword contained in the
  \<open>raw_message\<close> of some returned history message, the resolver returns the sender of
  the first such message and does not call the member list. It fails when that
  sender's \<open>user_id\<close> is falsy: line 311 tests \<open>not user_id\<close>, so the value 0 counts as
  no match, the member list is queried and its match 222 is returned.
\<close>

theorem C4_falsy_sender_falls_through:
  "get_ids (gw_scene 0) ex_action [] =
     (Inr (PInt 222, PInt 100),
      [group_msg_history_request (PStr ''127.0.0.1'') 4999 (PStr []) (PInt 100),
       group_member_list_request (PStr ''127.0.0.1'') 4999 (PStr []) (PInt 100)])"
  by (simp add: scene_simps)

text \<open>
  C4, amended: with a known (truthy) context group, a non-empty keyword string, a
  port that converts and a host that the constructor of the connection accepts, if
  the history reply has status \<open>"ok"\<close> and its messages up to the first one whose
  \<open>raw_message\<close> contains the keyword are mappings with a textual (or missing)
  \<open>raw_message\<close>, and the sender of that first message carries a truthy \<open>user_id\<close>,
  then the resolver returns that \<open>user_id\<close> with the context group, and the history
  request is the only request it makes. (A falsy \<open>user_id\<close> counts as no match.)
\<close>

theorem C4_first_history_match:
  assumes ctx: "py_truthy (context_group_id a)"
    and kw: "action_data a ''poke_keywords'' = Some (PStr k)" "k \<noteq> []"
    and port: "napcat_port a = Inr port"
    and host: "host_accepted (napcat_host a)"
    and reply: "reply w tr (group_msg_history_request (napcat_host a) port (token a)
                        (context_group_id a)) = Received body (Some data_json)"
    and status: "py_get data_json ''status'' PNone = Some (PStr ''ok'')"
    and data: "py_subscript data_json ''data'' = Some d"
    and msgs: "py_subscript d ''messages'' = Some (PList (pre @ m # post))"
    and pre: "\<forall>x\<in>set pre. \<exists>s. raw_text x = Some s \<and> \<not> sublist k s"
    and hit: "raw_text m = Some s" "sublist k s"
    and uid: "sender_user_id m = Some u" "py_truthy u"
  shows "get_ids w a tr =
     (Inr (u, context_group_id a),
      tr @ [group_msg_history_request (napcat_host a) port (token a) (context_group_id a)])"
proof -
  from data obtain top where top: "data_json = PDict top" "map_of top ''data'' = Some d"
    by (cases data_json) auto
  from msgs obtain dk where
    dk: "d = PDict dk" "map_of dk ''messages'' = Some (PList (pre @ m # post))"
    by (cases d) auto
  have loop: "history_loop (PStr k) (pre @ m # post) = Some u"
    using history_loop_skip [OF pre] history_loop_hit [OF hit uid(1)] by simp
  have body: "history_body (PStr k) (Some data_json) = Some u"
    using status top dk loop by (simp add: history_body_def)
  have "napcat_get_user_id_from_group_history_by_msg w (PStr k) (context_group_id a)
          (napcat_host a) port (token a) tr =
        (Inr u,
         tr @ [group_msg_history_request (napcat_host a) port (token a) (context_group_id a)])"
    using reply body by (simp add: lookups_accepted [OF host])
  then show ?thesis
    using ctx kw port uid(2) by (simp add: get_ids_def Let_def)
qed

theorem C4_first_history_match_witness:
  "get_ids (gw_scene 12345) ex_action [] =
     (Inr (PInt 12345, PInt 100),
      [group_msg_history_request (PStr ''127.0.0.1'') 4999 (PStr []) (PInt 100)])"
proof -
  define m1 where "m1 = PDict [(''raw_message'', PStr ''good morning''),
                               (''sender'', PDict [(''user_id'', PInt 111)])]"
  define m2 where "m2 = PDict [(''raw_message'', PStr ''hello world''),
                               (''sender'', PDict [(''user_id'', PInt 12345)])]"
  define d where "d = PDict [(''messages'', PList [m1, m2])]"
  define j where "j = PDict [(''status'', PStr ''ok''), (''data'', d)]"
  have ctx: "context_group_id ex_action = PInt 100"
    by (simp add: context_group_id_def ex_action_def)
  have "\<exists>body. reply (gw_scene 12345) []
          (group_msg_history_request (napcat_host ex_action) 4999 (token ex_action)
             (context_group_id ex_action)) = Received body (Some j)"
    by (simp add: gw_scene_def ex_world_def scene_reply_def group_msg_history_request_def
          j_def d_def m1_def m2_def)
  then obtain body where reply: "reply (gw_scene 12345) []
          (group_msg_history_request (napcat_host ex_action) 4999 (token ex_action)
             (context_group_id ex_action)) = Received body (Some j)" ..
  have pre: "\<forall>x\<in>set [m1]. \<exists>s. raw_text x = Some s \<and> \<not> sublist ''hello'' s"
    by (simp add: m1_def sublist_Cons_right)
  have hit: "raw_text m2 = Some ''hello world''" "sublist ''hello'' ''hello world''"
    by (simp_all add: m2_def sublist_Cons_right)
  have uid: "sender_user_id m2 = Some (PInt 12345)" "py_truthy (PInt 12345)"
    by (simp_all add: m2_def sender_user_id_def)
  have r: "get_ids (gw_scene 12345) ex_action [] =
     (Inr (PInt 12345, context_group_id ex_action),
      [] @ [group_msg_history_request (napcat_host ex_action) 4999 (token ex_action)
              (context_group_id ex_action)])"
  proof (rule C4_first_history_match [where k = "''hello''" and pre = "[m1]" and m = m2
        and post = "[]" and d = d and data_json = j and body = body
        and s = "''hello world''"])
    show "py_truthy (context_group_id ex_action)" by (simp add: ctx)
    show "action_data ex_action ''poke_keywords'' = Some (PStr ''hello'')"
      by (simp add: ex_action_def)
    show "''hello'' \<noteq> []" by simp
    show "napcat_port ex_action = Inr 4999" by (simp add: ex_action_def)
    show "host_accepted (napcat_host ex_action)"
      by (simp add: ex_action_def strip_brackets_def)
    show "reply (gw_scene 12345) []
          (group_msg_history_request (napcat_host ex_action) 4999 (token ex_action)
             (context_group_id ex_action)) = Received body (Some j)" by (rule reply)
    show "py_get j ''status'' PNone = Some (PStr ''ok'')" by (simp add: j_def)
    show "py_subscript j ''data'' = Some d" by (simp add: j_def)
    show "py_subscript d ''messages'' = Some (PList ([m1] @ m2 # []))" by (simp add: d_def)
    show "\<forall>x\<in>set [m1]. \<exists>s. raw_text x = Some s \<and> \<not> sublist ''hello'' s" by (rule pre)
    show "raw_text m2 = Some ''hello world''" by (rule hit)
    show "sublist ''hello'' ''hello world''" by (rule hit)
    show "sender_user_id m2 = Some (PInt 12345)" by (rule uid)
    show "py_truthy (PInt 12345)" by simp
  qed
  then show ?thesis
    unfolding ctx by (simp add: ex_action_def)
qed

section \<open>The self-target guard\<close>

text \<open>
  C3, as stated: whenever the resolved user equals the \<open>self_id\<close> of the action
  parameters, no poke is sent and the outcome is the rejection. It fails when
  \<open>self_id\<close> is falsy: with \<open>self_id\<close> 0 and the resolved user 0 (the ambient
  attribute, the gateway being down) the guard of line 401 is skipped and
  \<open>/send_poke\<close> is called.
\<close>

theorem C3_falsy_self_id_not_rejected:
  "action_data ex_zero ''self_id'' = Some (PInt 0) \<and>
   fst (get_ids gw_down ex_zero []) = Inr (PInt 0, PInt 100) \<and>
   map rq_endpoint (snd (snd (execute gw_down ex_zero))) =
     [''/get_group_msg_history'', ''/get_group_member_list'', ''/send_poke'']"
  by (simp add: scene_simps ex_zero_def)

text \<open>
  C3, amended: whenever \<open>self_id\<close> is present and truthy and the resolved user has the
  same string form as \<open>self_id\<close> (in particular when they are equal), the outcome is
  \<open>(False, "cannot poke self")\<close>, the action object is unchanged and \<open>/send_poke\<close> is
  not among the requests made.
\<close>

theorem C3_self_target_rejected:
  assumes "reload_raises a = None"
    and "get_ids w a [] = (Inr (user_id, group_id), tr)"
    and "action_data a ''self_id'' = Some self_id"
    and "py_truthy self_id"
    and "py_str (printable w) user_id = py_str (printable w) self_id"
  shows "execute w a = (Inr (False, msg_cannot_poke_self), a, tr) \<and>
         ''/send_poke'' \<notin> set (map rq_endpoint tr)"
proof -
  from get_ids_trace_lookup_only [of w a "[]"] assms(2)
  have "''/send_poke'' \<notin> set (map rq_endpoint tr)" by auto
  moreover have "execute w a = (Inr (False, msg_cannot_poke_self), a, tr)"
    using assms by (simp add: execute_def)
  ultimately show ?thesis by simp
qed

theorem C3_self_target_rejected_witness:
  "action_data ex_self ''self_id'' = Some (PInt 12345) \<and>
   get_ids (gw_scene 12345) ex_self [] =
     (Inr (PInt 12345, PInt 100),
      [group_msg_history_request (PStr ''127.0.0.1'') 4999 (PStr []) (PInt 100)]) \<and>
   execute (gw_scene 12345) ex_self =
     (Inr (False, msg_cannot_poke_self), ex_self,
      [group_msg_history_request (PStr ''127.0.0.1'') 4999 (PStr []) (PInt 100)])"
proof -
  have r: "reload_raises ex_self = None"
    and s: "action_data ex_self ''self_id'' = Some (PInt 12345)"
    by (simp_all add: ex_self_def ex_action_def)
  have g: "get_ids (gw_scene 12345) ex_self [] =
     (Inr (PInt 12345, PInt 100),
      [group_msg_history_request (PStr ''127.0.0.1'') 4999 (PStr []) (PInt 100)])"
    by (simp add: scene_simps ex_self_def)
  from C3_self_target_rejected [OF r g s] s g show ?thesis by simp
qed



section \<open>The outcome of a connection failure\<close>

lemma join_sep_snoc:
  "join_sep sep (xs @ [y]) = (if xs = [] then y else join_sep sep xs @ sep @ y)"
  by (induction sep xs rule: join_sep.induct) auto










text \<open>\<open>send_poke\<close> makes its request exactly when the port converts and the constructor
  accepts the host; otherwise it raises with the trace as it was.\<close>

lemma send_poke_reached:
  assumes "napcat_port a = Inr port" and "host_accepted (napcat_host a)"
  shows "\<exists>r. send_poke w a user_id group_id tr =
               (Inr r, tr @ [send_poke_request a port user_id group_id])"
  using assms
  by (cases "reply w tr (send_poke_request a port user_id group_id)")
     (auto simp: send_poke_def http_connection_def Let_def split: option.splits)





section \<open>An unresolved target\<close>

lemma digits_no_N: "CHR ''N'' \<notin> set (digits n)"
proof (induction n rule: digits.induct)
  case (1 n)
  have d: "char_of (48 + d) \<noteq> CHR ''N''" if "d < 10" for d :: nat
  proof
    assume "char_of (48 + d) = CHR ''N''"
    then have "(of_char (char_of (48 + d) :: char) :: nat) = of_char (CHR ''N'')" by simp
    with that show False by simp
  qed
  show ?case
  proof (cases "n < 10")
    case True
    then show ?thesis using d [of n] by (subst digits.simps) simp
  next
    case False
    then show ?thesis using 1 d [of "n mod 10"] by (subst digits.simps) simp
  qed
qed

lemma py_str_None:
  assumes "py_str pr v = ''None''"
  shows "v = PNone \<or> v = PStr ''None''"
proof (cases v)
  case (PInt i)
  have "str_int i \<noteq> ''None''"
    using digits_no_N [of "nat i"] by (auto simp: str_int_def)
  with assms PInt show ?thesis by simp
qed (use assms in \<open>auto split: if_splits\<close>)

text \<open>
  C8, as stated: when resolution yields no user, and there is no ambient user
  either, the action does not reject locally and still invokes \<open>/send_poke\<close>. It
  fails when the host supplies the string \<open>None\<close> as \<open>self_id\<close>: the keyword matches
  nothing, the resolved user is \<open>None\<close>, whose string form is \<open>None\<close> too, so the
  self-target guard of line 401 rejects the action and \<open>/send_poke\<close> is not called.
\<close>

theorem C8_string_None_self_id_rejected:
  "attr_user_id ex_none_self = None \<and>
   get_ids (gw_scene 12345) ex_none_self [] =
     (Inr (PNone, PInt 100),
      [group_msg_history_request (PStr ''127.0.0.1'') 4999 (PStr []) (PInt 100),
       group_member_list_request (PStr ''127.0.0.1'') 4999 (PStr []) (PInt 100)]) \<and>
   execute (gw_scene 12345) ex_none_self =
     (Inr (False, msg_cannot_poke_self), ex_none_self,
      [group_msg_history_request (PStr ''127.0.0.1'') 4999 (PStr []) (PInt 100),
       group_member_list_request (PStr ''127.0.0.1'') 4999 (PStr []) (PInt 100)])"
  by (simp add: scene_simps ex_none_self_def)

text \<open>
  C8, amended: when resolution yields no user (\<open>None\<close>), \<open>execute\<close> has no check for
  the missing target. If \<open>self_id\<close> is the string \<open>None\<close>, the self-target guard
  rejects the action. Otherwise \<open>execute\<close> calls \<open>send_poke\<close>: when the port does not
  convert or the constructor of the connection rejects the host, the outcome is the
  failure with the text of that exception, and no request is made; in every other
  case the \<open>/send_poke\<close> request is made, its body carries \<open>user_id\<close> \<open>None\<close>, and when
  the gateway answers with a JSON object whose status is not \<open>"ok"\<close>, the outcome is
  \<open>False\<close> with a message that ends with the string form of that whole object.
\<close>

theorem C8_unresolved_target_sent:
  assumes "reload_raises a = None"
    and "get_ids w a [] = (Inr (PNone, group_id), tr)"
  shows "if getattr_none (action_data a ''self_id'') = PStr ''None''
         then execute w a = (Inr (False, msg_cannot_poke_self), a, tr)
         else (case napcat_port a of
                 Inl e \<Rightarrow>
                   execute w a = (Inr (False, msg_operation_exception @ exc_msg e), a, tr)
               | Inr port \<Rightarrow>
                   if \<not> host_accepted (napcat_host a)
                   then execute w a =
                          (Inr (False, msg_operation_exception @
                                  exc_msg (constructor_error w (napcat_host a))), a, tr)
                   else
                     snd (snd (execute w a)) = tr @ [send_poke_request a port PNone group_id] \<and>
                     py_subscript (rq_body (send_poke_request a port PNone group_id)) ''user_id''
                       = Some PNone \<and>
                     (\<forall>result data_json status.
                        reply w tr (send_poke_request a port PNone group_id) =
                          Received result (Some data_json) \<and>
                        py_get data_json ''status'' PNone = Some status \<and>
                        status \<noteq> PStr ''ok'' \<longrightarrow>
                        fst (execute w a) =
                          Inr (False, msg_operation_failed @
                                 join_sep nl (request_debug w a PNone group_id @
                                   (if py_truthy (poke_debug a)
                                    then [msg_response @ result] else []) @
                                   [py_str (printable w) data_json])) \<and>
                        suffix (py_str (printable w) data_json)
                          (msg_operation_failed @
                             join_sep nl (request_debug w a PNone group_id @
                               (if py_truthy (poke_debug a)
                                then [msg_response @ result] else []) @
                               [py_str (printable w) data_json]))))"
proof (cases "getattr_none (action_data a ''self_id'') = PStr ''None''")
  case True
  with assms show ?thesis by (simp add: execute_def)
next
  case False
  let ?sid = "getattr_none (action_data a ''self_id'')"
  have guard: "\<not> (py_truthy ?sid \<and> py_str (printable w) PNone = py_str (printable w) ?sid)"
  proof
    assume g: "py_truthy ?sid \<and> py_str (printable w) PNone = py_str (printable w) ?sid"
    then have "py_str (printable w) ?sid = ''None''" by simp
    from py_str_None [OF this] False g show False by auto
  qed
  show ?thesis
  proof (cases "napcat_port a")
    case (Inl e)
    then have "send_poke w a PNone group_id tr = (Inl e, tr)"
      by (simp add: send_poke_def)
    with assms guard False Inl show ?thesis
      by (auto simp: execute_def Let_def)
  next
    case (Inr port)
    show ?thesis
    proof (cases "host_accepted (napcat_host a)")
      case rejected: False
      from send_poke_rejected_host [OF Inr rejected, of w PNone group_id tr]
        assms guard False Inr rejected
      show ?thesis
        by (auto simp: execute_def Let_def)
    next
      case accepted: True
      from send_poke_reached [OF Inr accepted, of w PNone group_id tr]
      obtain res where sp0: "send_poke w a PNone group_id tr =
          (Inr res, tr @ [send_poke_request a port PNone group_id])" ..
      have 1: "snd (snd (execute w a)) = tr @ [send_poke_request a port PNone group_id]"
        using assms guard sp0
        by (cases res) (auto simp: execute_def Let_def)
      have 2: "py_subscript (rq_body (send_poke_request a port PNone group_id)) ''user_id''
                 = Some PNone"
        by (simp add: send_poke_request_def)
      have 3: "fst (execute w a) =
                  Inr (False, msg_operation_failed @
                         join_sep nl (request_debug w a PNone group_id @
                           (if py_truthy (poke_debug a) then [msg_response @ result] else []) @
                           [py_str (printable w) data_json])) \<and>
                suffix (py_str (printable w) data_json)
                  (msg_operation_failed @
                     join_sep nl (request_debug w a PNone group_id @
                       (if py_truthy (poke_debug a) then [msg_response @ result] else []) @
                       [py_str (printable w) data_json]))"
        if r: "reply w tr (send_poke_request a port PNone group_id) =
                 Received result (Some data_json)"
          and st: "py_get data_json ''status'' PNone = Some status" "status \<noteq> PStr ''ok''"
        for result data_json status
      proof -
        define dbg where "dbg = request_debug w a PNone group_id @
                      (if py_truthy (poke_debug a) then [msg_response @ result] else [])"
        define last_line where "last_line = py_str (printable w) data_json"
        from st(1) obtain kvs where d: "data_json = PDict kvs" by (cases data_json) auto
        have ne: "last_line \<noteq> []" unfolding last_line_def d by simp
        have sp: "send_poke w a PNone group_id tr =
                    (Inr (False, join_sep nl (dbg @ [last_line])),
                     tr @ [send_poke_request a port PNone group_id])"
          using Inr accepted r st unfolding dbg_def last_line_def
          by (simp add: send_poke_def http_connection_def Let_def)
        have ne': "join_sep nl (dbg @ [last_line]) \<noteq> []"
          using ne by (simp add: join_sep_snoc)
        have e: "fst (execute w a) =
                Inr (False, msg_operation_failed @ join_sep nl (dbg @ [last_line]))"
          using assms guard sp ne'
          by (auto simp: execute_def Let_def)
        have s: "suffix last_line (msg_operation_failed @ join_sep nl (dbg @ [last_line]))"
          by (simp add: join_sep_snoc suffix_def)
        from e s show ?thesis
          unfolding dbg_def last_line_def by simp
      qed
      from 1 2 3 have "snd (snd (execute w a)) = tr @ [send_poke_request a port PNone group_id] \<and>
                     py_subscript (rq_body (send_poke_request a port PNone group_id)) ''user_id''
                       = Some PNone \<and>
                     (\<forall>result data_json status.
                        reply w tr (send_poke_request a port PNone group_id) =
                          Received result (Some data_json) \<and>
                        py_get data_json ''status'' PNone = Some status \<and>
                        status \<noteq> PStr ''ok'' \<longrightarrow>
                        fst (execute w a) =
                          Inr (False, msg_operation_failed @
                                 join_sep nl (request_debug w a PNone group_id @
                                   (if py_truthy (poke_debug a)
                                    then [msg_response @ result] else []) @
                                   [py_str (printable w) data_json])) \<and>
                        suffix (py_str (printable w) data_json)
                          (msg_operation_failed @
                             join_sep nl (request_debug w a PNone group_id @
                               (if py_truthy (poke_debug a)
                                then [msg_response @ result] else []) @
                               [py_str (printable w) data_json])))"
        by blast
      with False Inr accepted show ?thesis by simp
    qed
  qed
qed

theorem C8_unresolved_target_sent_witness:
  "snd (snd (execute (gw_scene 12345) ex_unresolved)) =
     [group_msg_history_request (PStr ''127.0.0.1'') 4999 (PStr []) (PInt 100),
      group_member_list_request (PStr ''127.0.0.1'') 4999 (PStr []) (PInt 100),
      send_poke_request ex_unresolved 4999 PNone (PInt 100)] \<and>
   fst (execute (gw_scene 12345) ex_unresolved) =
     Inr (False, msg_operation_failed @
            py_str (\<lambda>cp. True)
              (PDict [(''status'', PStr ''failed''), (''message'', PStr ''no such user'')]))"
proof -
  define j where "j = PDict [(''status'', PStr ''failed''), (''message'', PStr ''no such user'')]"
  define tr where
    "tr = [group_msg_history_request (PStr ''127.0.0.1'') 4999 (PStr []) (PInt 100),
           group_member_list_request (PStr ''127.0.0.1'') 4999 (PStr []) (PInt 100)]"
  have r: "reload_raises ex_unresolved = None"
    and p: "napcat_port ex_unresolved = Inr 4999"
    and h: "host_accepted (napcat_host ex_unresolved)"
    and s: "getattr_none (action_data ex_unresolved ''self_id'') \<noteq> PStr ''None''"
    by (simp_all add: ex_unresolved_def ex_action_def strip_brackets_def)
  have g: "get_ids (gw_scene 12345) ex_unresolved [] = (Inr (PNone, PInt 100), tr)"
    by (simp add: scene_simps ex_unresolved_def tr_def)
  have "\<exists>result. reply (gw_scene 12345) tr
           (send_poke_request ex_unresolved 4999 PNone (PInt 100)) = Received result (Some j)"
    by (simp add: gw_scene_def ex_world_def scene_reply_def send_poke_request_def j_def)
  then obtain result where q: "reply (gw_scene 12345) tr
           (send_poke_request ex_unresolved 4999 PNone (PInt 100)) = Received result (Some j)" ..
  have st: "py_get j ''status'' PNone = Some (PStr ''failed'')" "PStr ''failed'' \<noteq> PStr ''ok''"
    by (simp_all add: j_def)
  have d: "request_debug (gw_scene 12345) ex_unresolved PNone (PInt 100) = []"
    "\<not> py_truthy (poke_debug ex_unresolved)"
    by (simp_all add: request_debug_def ex_unresolved_def ex_action_def)
  have pr: "printable (gw_scene 12345) = (\<lambda>cp. True)"
    by (simp add: gw_scene_def ex_world_def)
  from C8_unresolved_target_sent [OF r g] s p h
  have c: "snd (snd (execute (gw_scene 12345) ex_unresolved)) =
             tr @ [send_poke_request ex_unresolved 4999 PNone (PInt 100)] \<and>
           py_subscript (rq_body (send_poke_request ex_unresolved 4999 PNone (PInt 100)))
             ''user_id'' = Some PNone \<and>
           (\<forall>result data_json status.
              reply (gw_scene 12345) tr (send_poke_request ex_unresolved 4999 PNone (PInt 100)) =
                Received result (Some data_json) \<and>
              py_get data_json ''status'' PNone = Some status \<and> status \<noteq> PStr ''ok'' \<longrightarrow>
              fst (execute (gw_scene 12345) ex_unresolved) =
                Inr (False, msg_operation_failed @
                       join_sep nl (request_debug (gw_scene 12345) ex_unresolved PNone (PInt 100) @
                         (if py_truthy (poke_debug ex_unresolved)
                          then [msg_response @ result] else []) @
                         [py_str (printable (gw_scene 12345)) data_json])) \<and>
              suffix (py_str (printable (gw_scene 12345)) data_json)
                (msg_operation_failed @
                   join_sep nl (request_debug (gw_scene 12345) ex_unresolved PNone (PInt 100) @
                     (if py_truthy (poke_debug ex_unresolved)
                      then [msg_response @ result] else []) @
                     [py_str (printable (gw_scene 12345)) data_json])))"
    by simp
  from c have t: "snd (snd (execute (gw_scene 12345) ex_unresolved)) =
             tr @ [send_poke_request ex_unresolved 4999 PNone (PInt 100)]"
    by (rule conjunct1)
  from c [THEN conjunct2, THEN conjunct2, rule_format, of result j "PStr ''failed''"] q st
  have "fst (execute (gw_scene 12345) ex_unresolved) =
        Inr (False, msg_operation_failed @
               join_sep nl (request_debug (gw_scene 12345) ex_unresolved PNone (PInt 100) @
                 (if py_truthy (poke_debug ex_unresolved) then [msg_response @ result] else []) @
                 [py_str (printable (gw_scene 12345)) j]))"
    by blast
  with d pr have "fst (execute (gw_scene 12345) ex_unresolved) =
        Inr (False, msg_operation_failed @ py_str (\<lambda>cp. True) j)"
    by simp
  with t show ?thesis unfolding j_def tr_def by simp
qed

section \<open>The stale \<open>user_id\<close> parameter\<close>

text \<open>
  After a poke was attempted (\<open>send_poke\<close> returned), a \<open>user_id\<close> entry of
  \<open>action_data\<close> is set to \<open>None\<close> (lines 408-409), and nothing else of the action
  object changes.
\<close>

lemma execute_clears_user_id_after_send:
  assumes "reload_raises a = None"
    and "get_ids w a [] = (Inr (user_id, group_id), tr)"
    and "\<not> (py_truthy (getattr_none (action_data a ''self_id'')) \<and>
             py_str (printable w) user_id =
               py_str (printable w) (getattr_none (action_data a ''self_id'')))"
    and "napcat_port a = Inr port"
    and "host_accepted (napcat_host a)"
  shows "fst (snd (execute w a)) =
           (if action_data a ''user_id'' \<noteq> None
            then a\<lparr>action_data := (action_data a)(''user_id'' \<mapsto> PNone)\<rparr> else a)"
proof -
  from send_poke_reached [OF assms(4,5), of w user_id group_id tr]
  obtain res where "send_poke w a user_id group_id tr =
      (Inr res, tr @ [send_poke_request a port user_id group_id])" ..
  with assms(1,2,3) show ?thesis
    by (cases res) (auto simp: execute_def Let_def)
qed

text \<open>
  C2 at two inputs where it fails. A bot whose \<open>self_id\<close> is the resolved user: \<open>execute\<close>
  returns at line 403 and the entry \<open>user_id\<close> (54321) is still there. A port that does
  not convert, without keyword: \<open>send_poke\<close> raises, \<open>execute\<close> returns at line 407 and
  the entry is still there.
\<close>

theorem C2_user_id_kept_on_early_return:
  "execute (gw_scene 12345) ex_self =
     (Inr (False, msg_cannot_poke_self), ex_self,
      [group_msg_history_request (PStr ''127.0.0.1'') 4999 (PStr []) (PInt 100)]) \<and>
   action_data ex_self ''user_id'' = Some (PInt 54321) \<and>
   execute gw_down ex_bad_port =
     (Inr (False, msg_operation_exception @ ''invalid literal for int() with base 10: '' @
                  repr_str (\<lambda>cp. True) ''abc''), ex_bad_port, []) \<and>
   action_data ex_bad_port ''user_id'' = Some (PInt 54321)"
  by (simp add: scene_simps ex_self_def ex_bad_port_def repr_str_def repr_char_def utf8_len_def)

end
